theory Spec2Isabelle
  imports Complex_Main "HOL-Library.Sublist"
begin

section \<open>Python values\<close>

text \<open>
  Scores are Python floats; they are modelled as real numbers, so rounding is not part of
  the model. Nullable columns are options. Python's truth test of a column value
  (\<^verbatim>\<open>if x\<close>, \<^verbatim>\<open>not x\<close>, \<^verbatim>\<open>x or y\<close>) is false for \<^verbatim>\<open>None\<close>, for the number zero, for the
  empty string and for the empty list.
\<close>

definition truthy_int :: "int option \<Rightarrow> bool" where
  "truthy_int x = (case x of None \<Rightarrow> False | Some n \<Rightarrow> n \<noteq> 0)"

definition truthy_real :: "real option \<Rightarrow> bool" where
  "truthy_real x = (case x of None \<Rightarrow> False | Some r \<Rightarrow> r \<noteq> 0)"

definition truthy_list :: "'a list option \<Rightarrow> bool" where
  "truthy_list x = (case x of None \<Rightarrow> False | Some xs \<Rightarrow> xs \<noteq> [])"

text \<open>\<^verbatim>\<open>x or d\<close> for a string or a list.\<close>

definition or_else :: "'a list option \<Rightarrow> 'a list \<Rightarrow> 'a list" where
  "or_else x d = (case x of None \<Rightarrow> d | Some xs \<Rightarrow> if xs = [] then d else xs)"

text \<open>
  \<^verbatim>\<open>str.lower()\<close> on ASCII text: the letters A to Z are lower-cased, every other 8-bit
  character is left as it is. Python lower-cases the letters of every script; text with
  letters outside ASCII is outside the model.
\<close>

definition lower_char :: "char \<Rightarrow> char" where
  "lower_char c =
     (let n = (of_char c :: nat) in if 65 \<le> n \<and> n \<le> 90 then char_of (n + 32) else c)"

definition lower :: "string \<Rightarrow> string" where
  "lower s = map lower_char s"

text \<open>\<^verbatim>\<open>sep.join(xs)\<close>.\<close>

fun join :: "string \<Rightarrow> string list \<Rightarrow> string" where
  "join sep [] = []"
| "join sep [x] = x"
| "join sep (x # y # ys) = x @ sep @ join sep (y # ys)"

text \<open>\<^verbatim>\<open>d.get(key, default)\<close> on a dictionary of floats.\<close>

definition dict_get :: "(string \<rightharpoonup> real) \<Rightarrow> string \<Rightarrow> real \<Rightarrow> real" where
  "dict_get d k dflt = (case d k of None \<Rightarrow> dflt | Some v \<Rightarrow> v)"

text \<open>\<^verbatim>\<open>xs[:k]\<close>: a negative \<open>k\<close> counts from the end.\<close>

definition slice_to :: "int \<Rightarrow> 'a list \<Rightarrow> 'a list" where
  "slice_to k xs = (if 0 \<le> k then take (nat k) xs else take (length xs - nat (- k)) xs)"

section \<open>The tables (models.py)\<close>

text \<open>
  Only the columns the matcher reads or writes are kept. The relationship
  \<^verbatim>\<open>job.company\<close> is the company row the job's foreign key points to, if any.
\<close>

record Company =
  company_size :: "string option"
  glassdoor_rating :: "real option"

record Job =
  jid :: int
  title :: "string option"
  description :: "string option"
  location :: "string option"
  experience_level :: "string option"
  salary_min :: "int option"
  salary_max :: "int option"
  remote_option :: "string option"
  required_skills :: "string list option"
  preferred_skills :: "string list option"
  is_active :: "bool option"
  company :: "Company option"

record UserProfile =
  uid :: int
  resume_text :: "string option"
  skills :: "string list option"
  experience_years :: "int option"
  current_title :: "string option"
  preferred_locations :: "string list option"
  preferred_remote :: "string option"
  preferred_company_size :: "string list option"
  preferred_salary_min :: "int option"
  preferred_salary_max :: "int option"

text \<open>
  A row of \<^verbatim>\<open>matches\<close>, with the columns \<^verbatim>\<open>_store_matches\<close> sets. The surrogate key
  \<^verbatim>\<open>id\<close>, the timestamp \<^verbatim>\<open>created_at\<close> and the interaction flags, which the database
  fills with their defaults, are left out.
\<close>

record Match =
  m_user_id :: int
  m_job_id :: int
  m_overall_score :: real
  m_semantic_score :: real
  m_skill_match_score :: real
  m_experience_match_score :: real
  m_location_match_score :: real
  m_salary_match_score :: real
  m_company_match_score :: real
  m_matched_skills :: "string list"
  m_missing_skills :: "string list"
  m_reasons :: "string list"

text \<open>The dictionary \<^verbatim>\<open>_calculate_match_score\<close> returns; its key \<^verbatim>\<open>job\<close> is the field \<open>job_obj\<close>.\<close>

record match_data =
  job_id :: int
  job_obj :: Job
  overall_score :: real
  semantic_score :: real
  skill_match_score :: real
  experience_match_score :: real
  location_match_score :: real
  salary_match_score :: real
  company_match_score :: real
  matched_skills :: "string list"
  missing_skills :: "string list"
  reasons :: "string list"

record database =
  user_profiles :: "UserProfile list"
  jobs :: "Job list"
  matches :: "Match list"

section \<open>The scorer (matcher/enhanced\_matcher.py)\<close>

subsection \<open>Semantic score\<close>

text \<open>
  The encoder is the external model: it maps a batch of texts to a batch of vectors, or
  raises (\<open>None\<close>). \<^verbatim>\<open>_calculate_semantic_score\<close> wraps the whole computation in
  \<^verbatim>\<open>try ... except Exception: return 0.5\<close>, so every raise inside (the encoder's, the
  index \<^verbatim>\<open>[0]\<close> into an empty batch, \<^verbatim>\<open>np.dot\<close> on vectors of different lengths) gives 0.5.
  A zero norm makes the quotient 0/0, a NaN and no exception; \<^verbatim>\<open>min(1.0, nan)\<close> keeps its
  first argument since every comparison with NaN is false, so the result is 1.0.
\<close>

type_synonym encoder = "string list \<Rightarrow> real list list option"

definition dot :: "real list \<Rightarrow> real list \<Rightarrow> real" where
  "dot u v = sum_list (map2 (*) u v)"

definition norm2 :: "real list \<Rightarrow> real" where
  "norm2 v = sqrt (sum_list (map (\<lambda>x. x * x) v))"

definition user_text :: "UserProfile \<Rightarrow> string" where
  "user_text user =
     or_else (current_title user) '''' @ '' '' @ join '' '' (or_else (skills user) [])
       @ '' '' @ or_else (resume_text user) ''''"

definition job_text :: "Job \<Rightarrow> string" where
  "job_text job = or_else (title job) '''' @ '' '' @ or_else (description job) ''''"

definition cosine :: "real list \<Rightarrow> real list \<Rightarrow> real" where
  "cosine u v =
     (if length u \<noteq> length v then 0.5
      else if norm2 u * norm2 v = 0 then 1
      else max 0 (min 1 (dot u v / (norm2 u * norm2 v))))"

definition calculate_semantic_score :: "encoder \<Rightarrow> UserProfile \<Rightarrow> Job \<Rightarrow> real" where
  "calculate_semantic_score enc user job =
     (case enc [user_text user] of
        None \<Rightarrow> 0.5
      | Some [] \<Rightarrow> 0.5
      | Some (user_embedding # _) \<Rightarrow>
          (case enc [job_text job] of
             None \<Rightarrow> 0.5
           | Some [] \<Rightarrow> 0.5
           | Some (job_embedding # _) \<Rightarrow> cosine user_embedding job_embedding))"

subsection \<open>Skill match\<close>

text \<open>
  A Python set of strings is a list without duplicates. The order in which \<^verbatim>\<open>list(s)\<close>
  lists a set is not fixed by the program: it follows the hashes of the strings, which
  depend on the hash seed of the running process. It is a parameter of the model: a
  \<open>set_order\<close> maps the elements of a set to the list that \<^verbatim>\<open>list(s)\<close> gives in the
  process at hand. Within one process the same set is listed the same way; two processes
  may list it differently.
\<close>

type_synonym set_order = "string list \<Rightarrow> string list"

definition common_skills :: "string list" where
  "common_skills =
     [''python'', ''java'', ''javascript'', ''react'', ''node.js'', ''sql'', ''aws'', ''docker'',
      ''kubernetes'', ''git'', ''linux'', ''mongodb'', ''postgresql'', ''redis'', ''elasticsearch'',
      ''tensorflow'', ''pytorch'', ''machine learning'', ''data science'', ''api'', ''rest'',
      ''graphql'', ''microservices'', ''agile'', ''scrum'', ''ci/cd'', ''jenkins'', ''terraform'']"

definition extract_skills_from_text :: "string \<Rightarrow> string list" where
  "extract_skills_from_text text = filter (\<lambda>skill. sublist skill text) common_skills"

definition user_skill_set :: "UserProfile \<Rightarrow> string list" where
  "user_skill_set user = remdups (map lower (or_else (skills user) []))"

definition job_skill_set :: "Job \<Rightarrow> string list" where
  "job_skill_set job =
     remdups
       (map lower (or_else (required_skills job) [])
        @ map lower (or_else (preferred_skills job) [])
        @ (case description job of
             None \<Rightarrow> []
           | Some d \<Rightarrow> if d = [] then [] else extract_skills_from_text (lower d)))"

definition calculate_skill_match ::
  "set_order \<Rightarrow> UserProfile \<Rightarrow> Job \<Rightarrow> real \<times> string list \<times> string list" where
  "calculate_skill_match listing user job =
     (let user_skills = user_skill_set user; job_skills = job_skill_set job in
      if job_skills = [] then (0.5, [], [])
      else
        (let matched = listing (filter (\<lambda>s. s \<in> set job_skills) user_skills);
             missing = listing (filter (\<lambda>s. s \<notin> set user_skills) job_skills)
         in (real (length matched) / real (length job_skills), matched, missing)))"

subsection \<open>Experience match\<close>

definition level_ranges :: "string \<rightharpoonup> int \<times> int" where
  "level_ranges =
     map_of [(''entry'', (0, 2)), (''junior'', (1, 3)), (''mid'', (3, 6)),
             (''senior'', (5, 10)), (''lead'', (7, 15)), (''principal'', (10, 20))]"

definition calculate_experience_match :: "UserProfile \<Rightarrow> Job \<Rightarrow> real" where
  "calculate_experience_match user job =
     (case (experience_years user, experience_level job) of
        (Some user_exp, Some level) \<Rightarrow>
          if user_exp = 0 \<or> level = [] then 0.7
          else
            (let job_range = (case level_ranges level of None \<Rightarrow> (0, 20) | Some r \<Rightarrow> r) in
             if fst job_range \<le> user_exp \<and> user_exp \<le> snd job_range then 1
             else if user_exp < fst job_range
               then max 0.3 (1 - real_of_int (fst job_range - user_exp) * 0.2)
               else max 0.6 (1 - real_of_int (user_exp - snd job_range) * 0.1))
      | _ \<Rightarrow> 0.7)"

subsection \<open>Location match\<close>

definition calculate_location_match :: "UserProfile \<Rightarrow> Job \<Rightarrow> real" where
  "calculate_location_match user job =
     (case (preferred_locations user, location job) of
        (Some prefs, Some loc) \<Rightarrow>
          if prefs = [] \<or> loc = [] then 0.8
          else
            (let job_location = lower loc in
             if list_ex (\<lambda>pref_location.
                   sublist (lower pref_location) job_location
                   \<or> sublist job_location (lower pref_location)) prefs
             then 1
             else if remote_option job \<in> {Some ''remote'', Some ''hybrid''}
                   \<and> preferred_remote user \<in> {Some ''remote'', Some ''hybrid'', Some ''flexible''}
             then 0.9
             else 0.4)
      | _ \<Rightarrow> 0.8)"

subsection \<open>Salary match\<close>

definition calculate_salary_match :: "UserProfile \<Rightarrow> Job \<Rightarrow> real" where
  "calculate_salary_match user job =
     (if \<not> truthy_int (preferred_salary_min user) \<or> \<not> truthy_int (salary_min job) then 0.7
      else
        (let user_min = real_of_int (the (preferred_salary_min user));
             user_max = (if truthy_int (preferred_salary_max user)
                         then real_of_int (the (preferred_salary_max user))
                         else user_min * 1.5);
             job_min = real_of_int (the (salary_min job));
             job_max = (if truthy_int (salary_max job)
                        then real_of_int (the (salary_max job)) else job_min)
         in
           if job_max \<ge> user_min \<and> job_min \<le> user_max then
             (let overlap_start = max user_min job_min;
                  overlap_end = min user_max job_max;
                  overlap = overlap_end - overlap_start;
                  user_range = user_max - user_min
              in if user_range > 0 then min 1 (overlap / user_range) else 1)
           else if job_max < user_min then
             (let gap = user_min - job_max in max 0.2 (1 - gap / user_min))
           else 1))"

subsection \<open>Company match\<close>

definition calculate_company_match :: "UserProfile \<Rightarrow> Job \<Rightarrow> real" where
  "calculate_company_match user job =
     (case company job of
        None \<Rightarrow> 0.5
      | Some c \<Rightarrow>
          (let score = 0.5;
               score = (if truthy_list (preferred_company_size user)
                           \<and> company_size c \<notin> {None, Some []}
                           \<and> the (company_size c) \<in> set (the (preferred_company_size user))
                        then score + 0.3 else score);
               score = (if truthy_real (glassdoor_rating c)
                        then score + 0.2 * (the (glassdoor_rating c) / 5) else score)
           in min 1 score))"

subsection \<open>Reasons\<close>

definition generate_match_reasons ::
  "real \<Rightarrow> real \<Rightarrow> real \<Rightarrow> string list \<Rightarrow> Job \<Rightarrow> string list" where
  "generate_match_reasons semantic skill_score exp_score matched job =
     (if semantic > 0.8 then [''Strong semantic match with your background'']
      else if semantic > 0.6 then [''Good alignment with your experience''] else [])
     @ (if skill_score > 0.7 then [''Strong skill match: '' @ join '', '' (take 3 matched)]
        else if matched \<noteq> [] then [''Skill overlap: '' @ join '', '' (take 2 matched)] else [])
     @ (if exp_score > 0.8 then [''Perfect experience level match'']
        else if exp_score > 0.6 then [''Good experience level fit''] else [])
     @ (if remote_option job = Some ''remote'' then [''Remote work available'']
        else if remote_option job = Some ''hybrid'' then [''Hybrid work option''] else [])
     @ (if truthy_int (salary_min job) \<and> the (salary_min job) > 100000
        then [''Competitive salary range''] else [])"

subsection \<open>The weighted sum\<close>

text \<open>
  The sum is the exact sum of the six products. The source adds binary floats, so the
  float it returns is this sum up to the rounding of six multiplications and five
  additions; a statement about the sum holds of the returned float up to that rounding.
\<close>

type_synonym weight_config = "string \<rightharpoonup> real"

definition calculate_match_score ::
  "encoder \<Rightarrow> set_order \<Rightarrow> weight_config \<Rightarrow> UserProfile \<Rightarrow> Job \<Rightarrow> match_data" where
  "calculate_match_score enc listing weights user job =
     (let sem = calculate_semantic_score enc user job;
          (skill, matched, missing) = calculate_skill_match listing user job;
          exper = calculate_experience_match user job;
          loc = calculate_location_match user job;
          sal = calculate_salary_match user job;
          comp = calculate_company_match user job;
          overall =
            dict_get weights ''semantic_score'' 0.3 * sem
            + dict_get weights ''skill_match'' 0.25 * skill
            + dict_get weights ''experience_match'' 0.2 * exper
            + dict_get weights ''location_match'' 0.1 * loc
            + dict_get weights ''salary_match'' 0.1 * sal
            + dict_get weights ''company_match'' 0.05 * comp
      in \<lparr>job_id = jid job, job_obj = job, overall_score = overall, semantic_score = sem,
          skill_match_score = skill, experience_match_score = exper,
          location_match_score = loc, salary_match_score = sal,
          company_match_score = comp, matched_skills = matched,
          missing_skills = missing,
          reasons = generate_match_reasons sem skill exper matched job\<rparr>)"

section \<open>The pipeline (matcher/enhanced\_matcher.py)\<close>

text \<open>
  \<^verbatim>\<open>_store_matches\<close>: delete the user's rows, add one row per entry of the list, commit.
  The session's pending changes become the table at the commit; a failing commit is not
  modelled.
\<close>

definition to_Match :: "int \<Rightarrow> match_data \<Rightarrow> Match" where
  "to_Match user_id md =
     \<lparr>m_user_id = user_id, m_job_id = job_id md, m_overall_score = overall_score md,
      m_semantic_score = semantic_score md, m_skill_match_score = skill_match_score md,
      m_experience_match_score = experience_match_score md,
      m_location_match_score = location_match_score md,
      m_salary_match_score = salary_match_score md,
      m_company_match_score = company_match_score md,
      m_matched_skills = matched_skills md, m_missing_skills = missing_skills md,
      m_reasons = reasons md\<rparr>"

definition store_matches :: "int \<Rightarrow> match_data list \<Rightarrow> database \<Rightarrow> database" where
  "store_matches user_id ms db =
     db\<lparr>matches := filter (\<lambda>m. m_user_id m \<noteq> user_id) (matches db) @ map (to_Match user_id) ms\<rparr>"

text \<open>
  \<^verbatim>\<open>match_user_to_jobs\<close> returns the list of matches and leaves the database in a new
  state. \<^verbatim>\<open>list.sort(key=..., reverse=True)\<close> is stable: entries with equal keys keep
  their order, as \<open>sort_key\<close> on the negated key does.
\<close>

definition match_user_to_jobs ::
  "encoder \<Rightarrow> set_order \<Rightarrow> weight_config \<Rightarrow> (string \<rightharpoonup> real) \<Rightarrow> database \<Rightarrow> int \<Rightarrow> int
     \<Rightarrow> match_data list \<times> database" where
  "match_user_to_jobs enc listing weights thresholds db user_id top_k =
     (case find (\<lambda>u. uid u = user_id) (user_profiles db) of
        None \<Rightarrow> ([], db)
      | Some user \<Rightarrow>
          (let active = filter (\<lambda>j. is_active j = Some True) (jobs db);
               found = filter
                 (\<lambda>md. overall_score md \<ge> dict_get thresholds ''minimum_match_score'' 0.6)
                 (map (calculate_match_score enc listing weights user) active);
               ranked = sort_key (\<lambda>md. - overall_score md) found;
               top = slice_to top_k ranked
           in (top, store_matches user_id top db)))"

section \<open>The vector store (embeddings/vector\_store.py)\<close>

text \<open>
  Modelled from the spec: \<^verbatim>\<open>faiss.IndexFlatIP\<close>, the external library's exact inner-product
  index, which is not among the sources. The specification asks for results sorted by
  descending inner product, ties in insertion order, at most \<open>k\<close> of them; the library's
  index does this as follows. It keeps the added vectors in order; \<^verbatim>\<open>add\<close> and \<^verbatim>\<open>search\<close>
  assert that the rows have the index's dimension, \<^verbatim>\<open>search\<close> also that \<open>k\<close> is positive;
  \<^verbatim>\<open>search\<close> returns, for each query row, exactly \<open>k\<close> distances and labels, best inner
  product first, and fills the places beyond the stored vectors with the label \<open>-1\<close>
  and the distance \<open>-FLT_MAX\<close>. Equal inner products are listed in insertion order here.
  The number of results \<open>k\<close> is a count, a natural number.
\<close>

datatype py_error = AssertionError | OSError | RuntimeError | UnpicklingError
  | IndexCorruptionError

record IndexFlatIP =
  dim :: nat
  xb :: "real list list"

definition ntotal :: "IndexFlatIP \<Rightarrow> nat" where
  "ntotal ix = length (xb ix)"

definition new_IndexFlatIP :: "nat \<Rightarrow> IndexFlatIP" where
  "new_IndexFlatIP n = \<lparr>dim = n, xb = []\<rparr>"

definition index_add :: "IndexFlatIP \<Rightarrow> real list list \<Rightarrow> py_error + IndexFlatIP" where
  "index_add ix rows =
     (if list_all (\<lambda>r. length r = dim ix) rows then Inr (ix\<lparr>xb := xb ix @ rows\<rparr>)
      else Inl AssertionError)"

definition flt_max :: real where
  "flt_max = 340282346638528859811704183484516925440"

definition index_search_row :: "IndexFlatIP \<Rightarrow> real list \<Rightarrow> nat \<Rightarrow> (real \<times> int) list" where
  "index_search_row ix q k =
     (let scored = zip (map (dot q) (xb ix)) (map int [0..<length (xb ix)]);
          best = take k (sort_key (\<lambda>p. - fst p) scored)
      in best @ replicate (k - length best) (- flt_max, - 1))"

definition index_search ::
  "IndexFlatIP \<Rightarrow> real list list \<Rightarrow> nat \<Rightarrow> py_error + (real \<times> int) list list" where
  "index_search ix rows k =
     (if \<not> list_all (\<lambda>r. length r = dim ix) rows \<or> k = 0 then Inl AssertionError
      else Inr (map (\<lambda>q. index_search_row ix q k) rows))"

text \<open>
  A numpy array of one or two dimensions; \<^verbatim>\<open>reshape(1, -1)\<close> makes a vector the only row
  of a matrix.
\<close>

datatype ndarray = Vec "real list" | Mat "real list list"

definition as_rows :: "ndarray \<Rightarrow> real list list" where
  "as_rows a = (case a of Vec v \<Rightarrow> [v] | Mat rows \<Rightarrow> rows)"

text \<open>
  The two files of the store. Reading a file whose content is damaged raises:
  \<^verbatim>\<open>faiss.read_index\<close> a \<^verbatim>\<open>RuntimeError\<close>, \<^verbatim>\<open>pickle.load\<close> an \<^verbatim>\<open>UnpicklingError\<close>.
  \<open>dirs_ok\<close> says whether \<^verbatim>\<open>os.makedirs\<close> succeeds. \<open>IndexCorruptionError\<close> is the name the
  specification gives to the error of a damaged store.
\<close>

datatype 'a stored = Damaged | Content 'a

record filesystem =
  dirs_ok :: bool
  index_file :: "IndexFlatIP stored option"
  id_file :: "string list stored option"

definition read_index :: "IndexFlatIP stored \<Rightarrow> py_error + IndexFlatIP" where
  "read_index f = (case f of Damaged \<Rightarrow> Inl RuntimeError | Content ix \<Rightarrow> Inr ix)"

definition pickle_load :: "string list stored \<Rightarrow> py_error + string list" where
  "pickle_load f = (case f of Damaged \<Rightarrow> Inl UnpicklingError | Content l \<Rightarrow> Inr l)"

record FaissStore =
  store_d :: nat
  index :: IndexFlatIP
  ids :: "string list"

definition fresh_store :: "nat \<Rightarrow> FaissStore" where
  "fresh_store n = \<lparr>store_d = n, index = new_IndexFlatIP n, ids = []\<rparr>"

definition FaissStore_init :: "nat \<Rightarrow> filesystem \<Rightarrow> py_error + FaissStore" where
  "FaissStore_init n fs =
     (if \<not> dirs_ok fs then Inl OSError
      else
        (case (index_file fs, id_file fs) of
           (Some fi, Some fp) \<Rightarrow>
             (case read_index fi of
                Inl _ \<Rightarrow> Inr (fresh_store n)
              | Inr ix \<Rightarrow>
                  (case pickle_load fp of
                     Inl _ \<Rightarrow> Inr (fresh_store n)
                   | Inr l \<Rightarrow> Inr \<lparr>store_d = n, index = ix, ids = l\<rparr>))
         | _ \<Rightarrow> Inr (fresh_store n)))"

definition save :: "FaissStore \<Rightarrow> filesystem \<Rightarrow> filesystem" where
  "save s fs = fs\<lparr>index_file := Some (Content (index s)), id_file := Some (Content (ids s))\<rparr>"

definition add ::
  "FaissStore \<Rightarrow> filesystem \<Rightarrow> ndarray \<Rightarrow> string list \<Rightarrow> py_error + FaissStore \<times> filesystem" where
  "add s fs vecs new_ids =
     (case index_add (index s) (as_rows vecs) of
        Inl e \<Rightarrow> Inl e
      | Inr ix \<Rightarrow> (let s' = s\<lparr>index := ix, ids := ids s @ new_ids\<rparr> in Inr (s', save s' fs)))"

text \<open>One entry \<^verbatim>\<open>{"id": ..., "score": ...}\<close> of a result row.\<close>

record hit =
  hit_id :: string
  score :: real

definition search :: "FaissStore \<Rightarrow> ndarray \<Rightarrow> nat \<Rightarrow> py_error + hit list list" where
  "search s vec top_k =
     (if ntotal (index s) = 0 then Inr [[]]
      else
        (case index_search (index s) (as_rows vec) top_k of
           Inl e \<Rightarrow> Inl e
         | Inr DI \<Rightarrow>
             Inr (map (\<lambda>row.
                    map (\<lambda>p. \<lparr>hit_id = ids s ! nat (snd p), score = fst p\<rparr>)
                      (filter (\<lambda>p. \<not> (snd p < 0 \<or> snd p \<ge> int (length (ids s)))) row))
                  DI)))"

text \<open>
  A sequence of \<^verbatim>\<open>add\<close> calls on a store and its files; a call that raises leaves both
  as they were.
\<close>

fun run_adds ::
  "FaissStore \<times> filesystem \<Rightarrow> (ndarray \<times> string list) list \<Rightarrow> FaissStore \<times> filesystem" where
  "run_adds st [] = st"
| "run_adds st (c # calls) =
     (case add (fst st) (snd st) (fst c) (snd c) of
        Inl _ \<Rightarrow> run_adds st calls
      | Inr st' \<Rightarrow> run_adds st' calls)"

definition inserted_ids :: "(ndarray \<times> string list) list \<Rightarrow> string set" where
  "inserted_ids calls = set (concat (map snd calls))"

section \<open>Inputs and predicates of the statements\<close>

text \<open>A profile and a job with every optional column empty, and an encoder that always raises.\<close>

definition user0 :: UserProfile where
  "user0 = \<lparr>uid = 1, resume_text = None, skills = None, experience_years = None,
     current_title = None, preferred_locations = None, preferred_remote = None,
     preferred_company_size = None, preferred_salary_min = None, preferred_salary_max = None\<rparr>"

definition job0 :: Job where
  "job0 = \<lparr>jid = 7, title = None, description = None, location = None, experience_level = None,
     salary_min = None, salary_max = None, remote_option = None, required_skills = None,
     preferred_skills = None, is_active = Some True, company = None\<rparr>"

definition failing_encoder :: encoder where
  "failing_encoder texts = None"

text \<open>
  Two ways a process may list a set: in the order the model holds its elements, and in the
  reverse order. A set order rearranges: it lists the elements of the set, each once.
\<close>

definition insertion_order :: set_order where
  "insertion_order xs = xs"

definition reverse_order :: set_order where
  "reverse_order xs = rev xs"

definition rearranges :: "set_order \<Rightarrow> bool" where
  "rearranges listing = (\<forall>xs. set (listing xs) = set xs \<and> length (listing xs) = length xs)"

text \<open>A weight configuration with every weight 1.\<close>

definition unit_weights :: "(string \<times> real) list" where
  "unit_weights = [(''semantic_score'', 1), (''skill_match'', 1), (''experience_match'', 1),
     (''location_match'', 1), (''salary_match'', 1), (''company_match'', 1)]"

text \<open>The sum of the six weights the scorer uses, each with its default when the key is absent.\<close>

definition total_weight :: "weight_config \<Rightarrow> real" where
  "total_weight weights =
     dict_get weights ''semantic_score'' 0.3 + dict_get weights ''skill_match'' 0.25
     + dict_get weights ''experience_match'' 0.2 + dict_get weights ''location_match'' 0.1
     + dict_get weights ''salary_match'' 0.1 + dict_get weights ''company_match'' 0.05"

text \<open>All six sub-scores of a result lie in [0,1].\<close>

definition unit_scores :: "match_data \<Rightarrow> bool" where
  "unit_scores md =
     (0 \<le> semantic_score md \<and> semantic_score md \<le> 1
      \<and> 0 \<le> skill_match_score md \<and> skill_match_score md \<le> 1
      \<and> 0 \<le> experience_match_score md \<and> experience_match_score md \<le> 1
      \<and> 0 \<le> location_match_score md \<and> location_match_score md \<le> 1
      \<and> 0 \<le> salary_match_score md \<and> salary_match_score md \<le> 1
      \<and> 0 \<le> company_match_score md \<and> company_match_score md \<le> 1)"

text \<open>
  A database with the profile and the job above and one stored match of that user, a
  threshold configuration of 0.5, and the score of the job for the profile under the
  default weights.
\<close>

definition old_match :: Match where
  "old_match = \<lparr>m_user_id = 1, m_job_id = 99, m_overall_score = 0.9, m_semantic_score = 0.9,
     m_skill_match_score = 0.9, m_experience_match_score = 0.9, m_location_match_score = 0.9,
     m_salary_match_score = 0.9, m_company_match_score = 0.9, m_matched_skills = [],
     m_missing_skills = [], m_reasons = []\<rparr>"

definition db1 :: database where
  "db1 = \<lparr>user_profiles = [user0], jobs = [job0], matches = [old_match]\<rparr>"

definition low_threshold :: "string \<rightharpoonup> real" where
  "low_threshold = [''minimum_match_score'' \<mapsto> 0.5]"

definition md0 :: match_data where
  "md0 = calculate_match_score failing_encoder insertion_order Map.empty user0 job0"

text \<open>
  A second database: an engineer who knows Python and SQL; a cook's job and a data
  engineer's job, both active, and an inactive job; a stored match of the engineer and one
  of another user. The encoder gives texts that name an engineer the vector (1, 0) and all
  others the unit vector (3/5, 4/5). \<open>md_a\<close> and \<open>md_b\<close> are the scores of the two active
  jobs in a process with the given set order.
\<close>

definition user2 :: UserProfile where
  "user2 = user0\<lparr>skills := Some [''Python'', ''SQL''], current_title := Some ''Engineer''\<rparr>"

definition job_a :: Job where
  "job_a = job0\<lparr>jid := 7, title := Some ''Data Engineer'',
     required_skills := Some [''python'', ''sql'']\<rparr>"

definition job_b :: Job where
  "job_b = job0\<lparr>jid := 8, title := Some ''Chef'',
     required_skills := Some [''python'', ''cooking'']\<rparr>"

definition job_c :: Job where
  "job_c = job0\<lparr>jid := 9, is_active := Some False\<rparr>"

definition other_match :: Match where
  "other_match = old_match\<lparr>m_user_id := 5, m_job_id := 7\<rparr>"

definition db2 :: database where
  "db2 = \<lparr>user_profiles = [user2], jobs = [job_b, job_a, job_c],
     matches = [old_match, other_match]\<rparr>"

definition unit_encoder :: encoder where
  "unit_encoder texts =
     Some (map (\<lambda>t. if sublist ''Engineer'' t then [1, 0] else [3 / 5, 4 / 5]) texts)"

definition md_a :: "set_order \<Rightarrow> match_data" where
  "md_a listing = calculate_match_score unit_encoder listing Map.empty user2 job_a"

definition md_b :: "set_order \<Rightarrow> match_data" where
  "md_b listing = calculate_match_score unit_encoder listing Map.empty user2 job_b"

text \<open>The number of stored rows of a user for a job.\<close>

definition count_rows :: "database \<Rightarrow> int \<Rightarrow> int \<Rightarrow> nat" where
  "count_rows db user_id j =
     length (filter (\<lambda>m. m_user_id m = user_id \<and> m_job_id m = j) (matches db))"

text \<open>The profile and the job of the skill scenario.\<close>

definition user_py :: UserProfile where
  "user_py = user0\<lparr>skills := Some [''python'', ''react'']\<rparr>"

definition job_py :: Job where
  "job_py = job0\<lparr>required_skills := Some [''python'', ''sql'']\<rparr>"

text \<open>A profile with no year of experience yet, and an entry-level job.\<close>

definition user_new :: UserProfile where
  "user_new = user0\<lparr>experience_years := Some 0\<rparr>"

definition job_entry :: Job where
  "job_entry = job0\<lparr>experience_level := Some ''entry''\<rparr>"

text \<open>
  The salary data as \<^verbatim>\<open>_calculate_salary_match\<close> reads it. Salary data is present when
  both minima pass Python's truth test (not \<^verbatim>\<open>None\<close>, not 0). The candidate's ceiling
  defaults to 1.5 times the floor, the job's ceiling to its floor.
\<close>

definition salary_present :: "UserProfile \<Rightarrow> Job \<Rightarrow> bool" where
  "salary_present user job = (truthy_int (preferred_salary_min user) \<and> truthy_int (salary_min job))"

definition desired_min :: "UserProfile \<Rightarrow> real" where
  "desired_min user = real_of_int (the (preferred_salary_min user))"

definition desired_max :: "UserProfile \<Rightarrow> real" where
  "desired_max user =
     (if truthy_int (preferred_salary_max user) then real_of_int (the (preferred_salary_max user))
      else desired_min user * 1.5)"

definition offered_min :: "Job \<Rightarrow> real" where
  "offered_min job = real_of_int (the (salary_min job))"

definition offered_max :: "Job \<Rightarrow> real" where
  "offered_max job =
     (if truthy_int (salary_max job) then real_of_int (the (salary_max job)) else offered_min job)"

text \<open>The two ranges overlap when, as intervals, they share a point.\<close>

definition ranges_overlap :: "UserProfile \<Rightarrow> Job \<Rightarrow> bool" where
  "ranges_overlap user job =
     ({desired_min user .. desired_max user} \<inter> {offered_min job .. offered_max job} \<noteq> {})"

definition overlap_width :: "UserProfile \<Rightarrow> Job \<Rightarrow> real" where
  "overlap_width user job =
     min (desired_max user) (offered_max job) - max (desired_min user) (offered_min job)"

text \<open>The candidate and the job of the salary scenario, a better paid job and a worse paid one.\<close>

definition user_sal :: UserProfile where
  "user_sal = user0\<lparr>preferred_salary_min := Some 100000, preferred_salary_max := Some 130000\<rparr>"

definition job_sal :: Job where
  "job_sal = job0\<lparr>salary_min := Some 120000, salary_max := Some 150000\<rparr>"

definition job_rich :: Job where
  "job_rich = job0\<lparr>salary_min := Some 200000, salary_max := Some 250000\<rparr>"

definition job_poor :: Job where
  "job_poor = job0\<lparr>salary_min := Some 50000, salary_max := Some 80000\<rparr>"

text \<open>
  Files of the vector store: none yet; a damaged index file beside a readable id list; an
  index of two vectors beside a list of one id.
\<close>

definition fs_empty :: filesystem where
  "fs_empty = \<lparr>dirs_ok = True, index_file = None, id_file = None\<rparr>"

definition fs_damaged :: filesystem where
  "fs_damaged = \<lparr>dirs_ok = True, index_file = Some Damaged, id_file = Some (Content [''job:1''])\<rparr>"

definition ix2 :: IndexFlatIP where
  "ix2 = \<lparr>dim = 2, xb = [[1, 0], [0, 1]]\<rparr>"

definition fs_mismatch :: filesystem where
  "fs_mismatch = \<lparr>dirs_ok = True, index_file = Some (Content ix2), id_file = Some (Content [''job:1''])\<rparr>"

text \<open>One insertion of two unit vectors into a new store of dimension 2.\<close>

definition calls2 :: "(ndarray \<times> string list) list" where
  "calls2 = [(Mat [[1, 0], [0, 1]], [''job:1'', ''job:2''])]"

definition store2 :: FaissStore where
  "store2 = fst (run_adds (fresh_store 2, fs_empty) calls2)"

section \<open>Evaluation\<close>

lemmas eval_defs = calculate_match_score_def calculate_semantic_score_def failing_encoder_def
  calculate_skill_match_def user_skill_set_def job_skill_set_def or_else_def user0_def job0_def
  calculate_experience_match_def calculate_location_match_def calculate_salary_match_def
  truthy_int_def calculate_company_match_def generate_match_reasons_def dict_get_def
  unit_weights_def unit_scores_def insertion_order_def Let_def

section \<open>The weighted sum\<close>

lemma overall_score_eq:
  "overall_score (calculate_match_score enc listing weights user job) =
     dict_get weights ''semantic_score'' 0.3 * semantic_score (calculate_match_score enc listing weights user job)
     + dict_get weights ''skill_match'' 0.25 * skill_match_score (calculate_match_score enc listing weights user job)
     + dict_get weights ''experience_match'' 0.2 * experience_match_score (calculate_match_score enc listing weights user job)
     + dict_get weights ''location_match'' 0.1 * location_match_score (calculate_match_score enc listing weights user job)
     + dict_get weights ''salary_match'' 0.1 * salary_match_score (calculate_match_score enc listing weights user job)
     + dict_get weights ''company_match'' 0.05 * company_match_score (calculate_match_score enc listing weights user job)"
  by (simp add: calculate_match_score_def Let_def split: prod.splits)

lemma dict_get_nonneg:
  "\<forall>k v. d k = Some v \<longrightarrow> 0 \<le> v \<Longrightarrow> 0 \<le> dflt \<Longrightarrow> 0 \<le> dict_get d k dflt"
  by (simp add: dict_get_def split: option.splits)

lemma weighted_term: "0 \<le> (w::real) \<Longrightarrow> 0 \<le> s \<Longrightarrow> s \<le> 1 \<Longrightarrow> 0 \<le> w * s \<and> w * s \<le> w"
  by (simp add: mult_left_le)

text \<open>
  C1, as stated, fails: the weighted sum is returned as it is, with no clamp. With the
  six weights all 1 (non-negative), the empty profile and job and a failing encoder, the six
  sub-scores are 0.5, 0.5, 0.7, 0.8, 0.7 and 0.5, all in [0,1], and the overall score
  is 3.7.
\<close>

theorem overall_score_counterexample:
  "list_all (\<lambda>kv. 0 \<le> snd kv) unit_weights
   \<and> unit_scores (calculate_match_score failing_encoder insertion_order (map_of unit_weights) user0 job0)
   \<and> overall_score (calculate_match_score failing_encoder insertion_order (map_of unit_weights) user0 job0) = 37 / 10"
  by (simp add: eval_defs)

text \<open>
  C1, amended: for non-negative weights and six sub-scores in [0,1], the weighted sum lies
  between 0 and the sum of the six weights in use (a configured weight, or the default of
  an absent key), so between 0 and 1 whenever those weights sum to at most 1, as the
  defaults do. The overall score the code returns is this sum up to floating-point
  rounding: it is never negative, and it can pass the upper bound by the rounding error
  of the additions only. No clamp is applied.
\<close>

theorem overall_score_bounds:
  assumes nonneg: "\<forall>k v. weights k = Some v \<longrightarrow> 0 \<le> v"
    and unit: "unit_scores (calculate_match_score enc listing weights user job)"
  shows "0 \<le> overall_score (calculate_match_score enc listing weights user job)
     \<and> overall_score (calculate_match_score enc listing weights user job) \<le> total_weight weights
     \<and> (total_weight weights \<le> 1 \<longrightarrow> overall_score (calculate_match_score enc listing weights user job) \<le> 1)"
proof -
  let ?md = "calculate_match_score enc listing weights user job"
  have w: "0 \<le> dict_get weights ''semantic_score'' 0.3" "0 \<le> dict_get weights ''skill_match'' 0.25"
    "0 \<le> dict_get weights ''experience_match'' 0.2" "0 \<le> dict_get weights ''location_match'' 0.1"
    "0 \<le> dict_get weights ''salary_match'' 0.1" "0 \<le> dict_get weights ''company_match'' 0.05"
    using nonneg by (simp_all add: dict_get_nonneg)
  have t1: "0 \<le> dict_get weights ''semantic_score'' 0.3 * semantic_score ?md
      \<and> dict_get weights ''semantic_score'' 0.3 * semantic_score ?md \<le> dict_get weights ''semantic_score'' 0.3"
    using w(1) unit by (intro weighted_term) (simp_all add: unit_scores_def)
  have t2: "0 \<le> dict_get weights ''skill_match'' 0.25 * skill_match_score ?md
      \<and> dict_get weights ''skill_match'' 0.25 * skill_match_score ?md \<le> dict_get weights ''skill_match'' 0.25"
    using w(2) unit by (intro weighted_term) (simp_all add: unit_scores_def)
  have t3: "0 \<le> dict_get weights ''experience_match'' 0.2 * experience_match_score ?md
      \<and> dict_get weights ''experience_match'' 0.2 * experience_match_score ?md \<le> dict_get weights ''experience_match'' 0.2"
    using w(3) unit by (intro weighted_term) (simp_all add: unit_scores_def)
  have t4: "0 \<le> dict_get weights ''location_match'' 0.1 * location_match_score ?md
      \<and> dict_get weights ''location_match'' 0.1 * location_match_score ?md \<le> dict_get weights ''location_match'' 0.1"
    using w(4) unit by (intro weighted_term) (simp_all add: unit_scores_def)
  have t5: "0 \<le> dict_get weights ''salary_match'' 0.1 * salary_match_score ?md
      \<and> dict_get weights ''salary_match'' 0.1 * salary_match_score ?md \<le> dict_get weights ''salary_match'' 0.1"
    using w(5) unit by (intro weighted_term) (simp_all add: unit_scores_def)
  have t6: "0 \<le> dict_get weights ''company_match'' 0.05 * company_match_score ?md
      \<and> dict_get weights ''company_match'' 0.05 * company_match_score ?md \<le> dict_get weights ''company_match'' 0.05"
    using w(6) unit by (intro weighted_term) (simp_all add: unit_scores_def)
  have lo: "0 \<le> overall_score ?md"
    using t1 t2 t3 t4 t5 t6 by (subst overall_score_eq) linarith
  have hi: "overall_score ?md \<le> total_weight weights"
    using t1 t2 t3 t4 t5 t6 unfolding total_weight_def by (subst overall_score_eq) linarith
  from lo hi show ?thesis by auto
qed

text \<open>
  The amended C1 at the default weights (an empty configuration): the sub-scores are in
  [0,1], the weights in use sum to 1, and the overall score is in [0,1].
\<close>

theorem overall_score_bounds_witness:
  "unit_scores (calculate_match_score failing_encoder insertion_order Map.empty user0 job0)
   \<and> total_weight Map.empty = 1
   \<and> 0 \<le> overall_score (calculate_match_score failing_encoder insertion_order Map.empty user0 job0)
   \<and> overall_score (calculate_match_score failing_encoder insertion_order Map.empty user0 job0) \<le> 1"
  using overall_score_bounds [of Map.empty failing_encoder insertion_order user0 job0]
  by (simp add: eval_defs total_weight_def)

section \<open>The pipeline\<close>

subsection \<open>The example databases\<close>

lemma md0_value:
  "md0 = \<lparr>job_id = 7, job_obj = job0, overall_score = 59 / 100, semantic_score = 1 / 2,
      skill_match_score = 1 / 2, experience_match_score = 7 / 10,
      location_match_score = 4 / 5, salary_match_score = 7 / 10,
      company_match_score = 1 / 2, matched_skills = [], missing_skills = [],
      reasons = [''Good experience level fit'']\<rparr>"
  unfolding md0_def by (simp add: eval_defs)

lemma md0_fields:
  "job_id md0 = 7" "overall_score md0 = 59 / 100" "semantic_score md0 = 1 / 2"
  by (simp_all add: md0_value)

lemma m_job_id_to_Match [simp]: "m_job_id (to_Match u md) = job_id md"
  by (simp add: to_Match_def)

lemma m_user_id_to_Match [simp]: "m_user_id (to_Match u md) = u"
  by (simp add: to_Match_def)

lemma m_matched_skills_to_Match [simp]: "m_matched_skills (to_Match u md) = matched_skills md"
  by (simp add: to_Match_def)

lemma m_reasons_to_Match [simp]: "m_reasons (to_Match u md) = reasons md"
  by (simp add: to_Match_def)

lemma run_db1:
  "match_user_to_jobs failing_encoder insertion_order Map.empty low_threshold db1 1 50
     = ([md0], store_matches 1 [md0] db1)"
proof -
  have u: "find (\<lambda>u. uid u = 1) (user_profiles db1) = Some user0"
    by (simp add: db1_def user0_def)
  have a: "filter (\<lambda>j. is_active j = Some True) (jobs db1) = [job0]"
    by (simp add: db1_def job0_def)
  have t: "dict_get low_threshold ''minimum_match_score'' 0.6 = 1 / 2"
    by (simp add: dict_get_def low_threshold_def)
  show ?thesis
    unfolding match_user_to_jobs_def u a t
    by (simp add: md0_def [symmetric] md0_fields slice_to_def Let_def)
qed

lemma stored_db1: "matches (store_matches 1 [md0] db1) = [to_Match 1 md0]"
  by (simp add: store_matches_def db1_def old_match_def)

text \<open>The second database: skill sets, texts, embeddings and sub-scores.\<close>

lemma lower_db2:
  "lower ''Python'' = ''python''" "lower ''SQL'' = ''sql''" "lower ''python'' = ''python''"
  "lower ''sql'' = ''sql''" "lower ''cooking'' = ''cooking''"
  by code_simp+

lemma sets_db2:
  "user_skill_set user2 = [''python'', ''sql'']" "job_skill_set job_a = [''python'', ''sql'']"
  "job_skill_set job_b = [''python'', ''cooking'']"
  by (simp_all add: user_skill_set_def job_skill_set_def or_else_def
      user2_def job_a_def job_b_def user0_def job0_def lower_db2)

lemma skill_db2:
  "calculate_skill_match listing user2 job_a
     = (real (length (listing [''python'', ''sql''])) / 2, listing [''python'', ''sql''], listing [])"
  "calculate_skill_match listing user2 job_b
     = (real (length (listing [''python''])) / 2, listing [''python''], listing [''cooking''])"
  by (simp_all add: calculate_skill_match_def sets_db2 Let_def)

lemma texts_db2:
  "user_text user2 = ''Engineer Python SQL ''" "job_text job_a = ''Data Engineer ''"
  "job_text job_b = ''Chef ''"
  by (simp_all add: user_text_def job_text_def or_else_def user2_def job_a_def job_b_def
      user0_def job0_def)

lemma encoded_db2:
  "unit_encoder [''Engineer Python SQL ''] = Some [[1, 0]]"
  "unit_encoder [''Data Engineer ''] = Some [[1, 0]]"
  "unit_encoder [''Chef ''] = Some [[3 / 5, 4 / 5]]"
  by (simp_all add: unit_encoder_def sublist_code)

lemma cosine_db2: "cosine [1, 0] [1, 0] = 1" "cosine [1, 0] [3 / 5, 4 / 5] = 3 / 5"
  by (simp_all add: cosine_def norm2_def dot_def)

lemma semantic_db2:
  "calculate_semantic_score unit_encoder user2 job_a = 1"
  "calculate_semantic_score unit_encoder user2 job_b = 3 / 5"
  by (simp_all add: calculate_semantic_score_def texts_db2 encoded_db2 cosine_db2)

lemma others_db2:
  "calculate_experience_match user2 job_a = 7 / 10" "calculate_experience_match user2 job_b = 7 / 10"
  "calculate_location_match user2 job_a = 4 / 5" "calculate_location_match user2 job_b = 4 / 5"
  "calculate_salary_match user2 job_a = 7 / 10" "calculate_salary_match user2 job_b = 7 / 10"
  "calculate_company_match user2 job_a = 1 / 2" "calculate_company_match user2 job_b = 1 / 2"
  by (simp_all add: calculate_experience_match_def calculate_location_match_def
      calculate_salary_match_def calculate_company_match_def truthy_int_def
      user2_def job_a_def job_b_def user0_def job0_def)

lemma jid_db2: "jid job_a = 7" "jid job_b = 8" "jid job_c = 9"
  by (simp_all add: job_a_def job_b_def job_c_def job0_def)

lemma reasons_job_a:
  "generate_match_reasons 1 1 (7 / 10) matched job_a
     = [''Strong semantic match with your background'',
        ''Strong skill match: '' @ join '', '' (take 3 matched),
        ''Good experience level fit'']"
  by (simp add: generate_match_reasons_def truthy_int_def job_a_def job0_def)

lemma md_a_fields:
  assumes "rearranges listing"
  shows "job_id (md_a listing) = 7" "overall_score (md_a listing) = 173 / 200"
    "semantic_score (md_a listing) = 1" "skill_match_score (md_a listing) = 1"
    "matched_skills (md_a listing) = listing [''python'', ''sql'']"
    "missing_skills (md_a listing) = []"
    "reasons (md_a listing)
       = [''Strong semantic match with your background'',
          ''Strong skill match: '' @ join '', '' (take 3 (listing [''python'', ''sql''])),
          ''Good experience level fit'']"
proof -
  have "length (listing []) = 0"
    using assms by (simp add: rearranges_def)
  then have e: "listing [] = []" by simp
  have l: "length (listing [''python'', ''sql'']) = 2"
    using assms by (simp add: rearranges_def)
  show "job_id (md_a listing) = 7" "overall_score (md_a listing) = 173 / 200"
    "semantic_score (md_a listing) = 1" "skill_match_score (md_a listing) = 1"
    "matched_skills (md_a listing) = listing [''python'', ''sql'']"
    "missing_skills (md_a listing) = []"
    "reasons (md_a listing)
       = [''Strong semantic match with your background'',
          ''Strong skill match: '' @ join '', '' (take 3 (listing [''python'', ''sql''])),
          ''Good experience level fit'']"
    by (simp_all add: md_a_def calculate_match_score_def semantic_db2 skill_db2 others_db2 l e
        dict_get_def jid_db2 reasons_job_a Let_def)
qed

lemma md_b_fields:
  assumes "rearranges listing"
  shows "job_id (md_b listing) = 8" "overall_score (md_b listing) = 31 / 50"
    "semantic_score (md_b listing) = 3 / 5" "skill_match_score (md_b listing) = 1 / 2"
    "matched_skills (md_b listing) = [''python'']"
    "missing_skills (md_b listing) = [''cooking'']"
proof -
  have one: "listing [x] = [x]" for x
  proof -
    have "length (listing [x]) = 1" "set (listing [x]) = {x}"
      using assms by (simp_all add: rearranges_def)
    then show ?thesis by (cases "listing [x]") auto
  qed
  show "job_id (md_b listing) = 8" "overall_score (md_b listing) = 31 / 50"
    "semantic_score (md_b listing) = 3 / 5" "skill_match_score (md_b listing) = 1 / 2"
    "matched_skills (md_b listing) = [''python'']"
    "missing_skills (md_b listing) = [''cooking'']"
    by (simp_all add: md_b_def calculate_match_score_def semantic_db2 skill_db2 others_db2 one
        dict_get_def jid_db2 Let_def)
qed

lemma rearranges_orders: "rearranges insertion_order" "rearranges reverse_order"
  by (simp_all add: rearranges_def insertion_order_def reverse_order_def)

lemma run_db2:
  assumes "rearranges listing"
    and "user_profiles db = user_profiles db2" "jobs db = jobs db2"
  shows "match_user_to_jobs unit_encoder listing Map.empty low_threshold db 1 50
     = ([md_a listing, md_b listing], store_matches 1 [md_a listing, md_b listing] db)"
proof -
  have u: "find (\<lambda>u. uid u = 1) (user_profiles db) = Some user2"
    using assms(2) by (simp add: db2_def user2_def user0_def)
  have a: "filter (\<lambda>j. is_active j = Some True) (jobs db) = [job_b, job_a]"
    using assms(3) by (simp add: db2_def job_a_def job_b_def job_c_def job0_def)
  have t: "dict_get low_threshold ''minimum_match_score'' 0.6 = 1 / 2"
    by (simp add: dict_get_def low_threshold_def)
  show ?thesis
    unfolding match_user_to_jobs_def u a t
    by (simp add: md_a_def [symmetric] md_b_def [symmetric] md_a_fields [OF assms(1)]
        md_b_fields [OF assms(1)] slice_to_def Let_def)
qed

lemma stored_db2: "matches (store_matches 1 ms db2) = other_match # map (to_Match 1) ms"
  by (simp add: store_matches_def db2_def old_match_def other_match_def)

lemma other_match_user: "m_user_id other_match = 5" "m_job_id other_match = 7"
  by (simp_all add: other_match_def)

subsection \<open>Replacing a user's matches\<close>

lemma filter_to_Match [simp]:
  "filter (\<lambda>m. m_user_id m \<noteq> user_id) (map (to_Match user_id) ms) = []"
  by (simp add: filter_empty_conv)

lemma filter_own_to_Match [simp]:
  "filter (\<lambda>m. m_user_id m = user_id) (map (to_Match user_id) ms) = map (to_Match user_id) ms"
  by (induction ms) simp_all

lemma store_matches_tables [simp]:
  "user_profiles (store_matches user_id ms db) = user_profiles db"
  "jobs (store_matches user_id ms db) = jobs db"
  by (simp_all add: store_matches_def)

lemma store_matches_twice:
  "store_matches user_id ms (store_matches user_id ms db) = store_matches user_id ms db"
  by (simp add: store_matches_def)

lemma store_matches_own_rows:
  "filter (\<lambda>m. m_user_id m = user_id) (matches (store_matches user_id ms db))
     = map (to_Match user_id) ms"
  by (simp add: store_matches_def filter_empty_conv)

lemma count_new_rows:
  "distinct (map job_id ms) \<Longrightarrow>
   length (filter (\<lambda>m. m_user_id m = user_id \<and> m_job_id m = j) (map (to_Match user_id) ms))
     = (if j \<in> job_id ` set ms then 1 else 0)"
proof (induction ms)
  case Nil
  then show ?case by simp
next
  case (Cons md ms)
  then show ?case by auto
qed

lemma count_old_rows:
  "length (filter (\<lambda>m. m_user_id m = user_id \<and> m_job_id m = j)
      (filter (\<lambda>m. m_user_id m \<noteq> user_id) ms)) = 0"
  by (simp add: filter_empty_conv)

text \<open>
  \<^verbatim>\<open>_store_matches\<close> on a list whose job ids are pairwise distinct leaves exactly one row of
  the user for every job id of the list and none for any other job id.
\<close>

lemma store_matches_one_row_per_job:
  assumes "distinct (map job_id ms)"
  shows "count_rows (store_matches user_id ms db) user_id j = (if j \<in> job_id ` set ms then 1 else 0)"
  using count_new_rows [OF assms, of user_id j] count_old_rows [of user_id j "matches db"]
  by (simp add: count_rows_def store_matches_def del: filter_filter)

text \<open>
  The list the pipeline passes has pairwise distinct job ids: it holds one entry per job
  row, and the ids of the job rows are distinct (the primary key).
\<close>

lemma job_id_calculate_match_score [simp]:
  "job_id (calculate_match_score enc listing weights user j) = jid j"
  by (simp add: calculate_match_score_def Let_def split: prod.splits)

lemma distinct_map_insort_key:
  "distinct (map g (insort_key f x xs)) = (g x \<notin> g ` set xs \<and> distinct (map g xs))"
  by (induction xs) (auto simp: set_insort_key)

lemma distinct_map_sort_key: "distinct (map g (sort_key f xs)) = distinct (map g xs)"
  by (induction xs) (auto simp: distinct_map_insort_key)

lemma distinct_map_slice_to: "distinct (map g xs) \<Longrightarrow> distinct (map g (slice_to k xs))"
  by (simp add: slice_to_def take_map [symmetric] distinct_take)

lemma match_user_to_jobs_distinct:
  assumes "distinct (map jid (jobs db))"
  shows "distinct (map job_id
    (fst (match_user_to_jobs enc listing weights thresholds db user_id top_k)))"
proof (cases "find (\<lambda>u. uid u = user_id) (user_profiles db)")
  case None
  then show ?thesis by (simp add: match_user_to_jobs_def)
next
  case (Some user)
  have "distinct (map jid (filter (\<lambda>j. is_active j = Some True) (jobs db)))"
    using assms by (rule distinct_map_filter)
  then have "distinct (map job_id (map (calculate_match_score enc listing weights user)
      (filter (\<lambda>j. is_active j = Some True) (jobs db))))"
    by (simp add: comp_def)
  then have "distinct (map job_id (filter
      (\<lambda>md. overall_score md \<ge> dict_get thresholds ''minimum_match_score'' 0.6)
      (map (calculate_match_score enc listing weights user)
        (filter (\<lambda>j. is_active j = Some True) (jobs db)))))"
    by (rule distinct_map_filter)
  then show ?thesis
    using Some
    by (simp add: match_user_to_jobs_def Let_def distinct_map_slice_to distinct_map_sort_key)
qed

lemma match_user_to_jobs_stores:
  assumes "user_id \<in> uid ` set (user_profiles db)"
  shows "snd (match_user_to_jobs enc listing weights thresholds db user_id top_k)
     = store_matches user_id
         (fst (match_user_to_jobs enc listing weights thresholds db user_id top_k)) db"
proof -
  have "find (\<lambda>u. uid u = user_id) (user_profiles db) \<noteq> None"
    using assms by (auto simp: find_None_iff)
  then show ?thesis by (auto simp: match_user_to_jobs_def Let_def)
qed

text \<open>
  C2: \<^verbatim>\<open>_store_matches\<close> is called by \<^verbatim>\<open>match_user_to_jobs\<close> only, for a user that exists,
  with the list it returns. On a database whose job rows have distinct ids, after the call
  the table holds exactly one row of the user for every job id of the inserted list and no
  row of the user for any other job id.
\<close>

theorem replace_matches_one_row_per_job:
  assumes ids: "distinct (map jid (jobs db))"
    and user: "user_id \<in> uid ` set (user_profiles db)"
  shows "count_rows (snd (match_user_to_jobs enc listing weights thresholds db user_id top_k))
        user_id j
     = (if j \<in> job_id ` set (fst (match_user_to_jobs enc listing weights thresholds db user_id top_k))
        then 1 else 0)"
proof -
  let ?run = "match_user_to_jobs enc listing weights thresholds db user_id top_k"
  have "distinct (map job_id (fst ?run))"
    using ids by (rule match_user_to_jobs_distinct)
  then have "count_rows (store_matches user_id (fst ?run) db) user_id j
      = (if j \<in> job_id ` set (fst ?run) then 1 else 0)"
    by (rule store_matches_one_row_per_job)
  then show ?thesis
    using match_user_to_jobs_stores [OF user, of enc listing weights thresholds top_k] by simp
qed

text \<open>
  C2 on the second database, for user 1: the run inserts the jobs 7 and 8; afterwards
  there is one row each for the jobs 7 and 8, none for the inactive job 9 and none for job
  99 of the user's old match.
\<close>

theorem replace_matches_one_row_per_job_witness:
  "map job_id (fst (match_user_to_jobs unit_encoder reverse_order Map.empty low_threshold db2 1 50))
     = [7, 8]
   \<and> count_rows (snd (match_user_to_jobs unit_encoder reverse_order Map.empty low_threshold db2 1 50)) 1 7 = 1
   \<and> count_rows (snd (match_user_to_jobs unit_encoder reverse_order Map.empty low_threshold db2 1 50)) 1 8 = 1
   \<and> count_rows (snd (match_user_to_jobs unit_encoder reverse_order Map.empty low_threshold db2 1 50)) 1 9 = 0
   \<and> count_rows (snd (match_user_to_jobs unit_encoder reverse_order Map.empty low_threshold db2 1 50)) 1 99 = 0"
proof -
  have ids: "distinct (map jid (jobs db2))"
    by (simp add: db2_def jid_db2)
  have user: "1 \<in> uid ` set (user_profiles db2)"
    by (simp add: db2_def user2_def user0_def)
  have run: "fst (match_user_to_jobs unit_encoder reverse_order Map.empty low_threshold db2 1 50)
      = [md_a reverse_order, md_b reverse_order]"
    by (simp add: run_db2 [OF rearranges_orders(2)])
  show ?thesis
    using replace_matches_one_row_per_job [OF ids user, of unit_encoder reverse_order Map.empty low_threshold 50 7]
      replace_matches_one_row_per_job [OF ids user, of unit_encoder reverse_order Map.empty low_threshold 50 8]
      replace_matches_one_row_per_job [OF ids user, of unit_encoder reverse_order Map.empty low_threshold 50 9]
      replace_matches_one_row_per_job [OF ids user, of unit_encoder reverse_order Map.empty low_threshold 50 99]
    by (simp add: run md_a_fields [OF rearranges_orders(2)] md_b_fields [OF rearranges_orders(2)])
qed

subsection \<open>An unknown user\<close>

text \<open>
  C10: for a user id that no profile row has, \<^verbatim>\<open>match_user_to_jobs\<close> returns the empty list
  and the database, the table of matches included, is the one it started from.
\<close>

theorem match_user_to_jobs_unknown_user:
  assumes "user_id \<notin> uid ` set (user_profiles db)"
  shows "match_user_to_jobs enc listing weights thresholds db user_id top_k = ([], db)"
proof -
  have "find (\<lambda>u. uid u = user_id) (user_profiles db) = None"
    using assms by (auto simp: find_None_iff)
  then show ?thesis by (simp add: match_user_to_jobs_def)
qed

text \<open>C10 at user id 2 on a database whose only profile has id 1.\<close>

theorem match_user_to_jobs_unknown_user_witness:
  "fst (match_user_to_jobs failing_encoder insertion_order Map.empty low_threshold db1 2 50) = []
   \<and> matches (snd (match_user_to_jobs failing_encoder insertion_order Map.empty low_threshold db1 2 50))
       = [old_match]"
  using match_user_to_jobs_unknown_user
    [of 2 db1 failing_encoder insertion_order Map.empty low_threshold 50]
  by (simp add: db1_def user0_def)

subsection \<open>Running twice\<close>

text \<open>
  C9, as stated, fails: the stored lists of matched and missing skills, and the reason text
  that quotes the matched skills, are in the order in which the process lists a set, and
  that order differs between processes. A run on the second database in a process that
  lists the two matched skills of job 7 as python, sql followed by a run, on the database
  it left and with nothing else changed, in a process that lists them as sql, python,
  stores different records.
\<close>

theorem match_user_to_jobs_set_order_counterexample:
  "map m_matched_skills (filter (\<lambda>m. m_user_id m = 1)
      (matches (snd (match_user_to_jobs unit_encoder insertion_order Map.empty low_threshold db2 1 50))))
     = [[''python'', ''sql''], [''python'']]
   \<and> map m_matched_skills (filter (\<lambda>m. m_user_id m = 1)
      (matches (snd (match_user_to_jobs unit_encoder reverse_order Map.empty low_threshold
        (snd (match_user_to_jobs unit_encoder insertion_order Map.empty low_threshold db2 1 50)) 1 50))))
     = [[''sql'', ''python''], [''python'']]
   \<and> map (\<lambda>m. m_reasons m ! 1) (filter (\<lambda>m. m_job_id m = 7 \<and> m_user_id m = 1)
      (matches (snd (match_user_to_jobs unit_encoder insertion_order Map.empty low_threshold db2 1 50))))
     = [''Strong skill match: python, sql'']
   \<and> map (\<lambda>m. m_reasons m ! 1) (filter (\<lambda>m. m_job_id m = 7 \<and> m_user_id m = 1)
      (matches (snd (match_user_to_jobs unit_encoder reverse_order Map.empty low_threshold
        (snd (match_user_to_jobs unit_encoder insertion_order Map.empty low_threshold db2 1 50)) 1 50))))
     = [''Strong skill match: sql, python'']"
proof -
  let ?db' = "snd (match_user_to_jobs unit_encoder insertion_order Map.empty low_threshold db2 1 50)"
  have first: "?db' = store_matches 1 [md_a insertion_order, md_b insertion_order] db2"
    by (simp add: run_db2 [OF rearranges_orders(1)])
  have second: "snd (match_user_to_jobs unit_encoder reverse_order Map.empty low_threshold ?db' 1 50)
      = store_matches 1 [md_a reverse_order, md_b reverse_order] ?db'"
    by (simp add: first run_db2 [OF rearranges_orders(2)])
  have ins: "insertion_order [''python'', ''sql''] = [''python'', ''sql'']"
    by (simp add: insertion_order_def)
  have rv: "reverse_order [''python'', ''sql''] = [''sql'', ''python'']"
    by (simp add: reverse_order_def)
  show ?thesis
    unfolding second
    unfolding first
    by (simp add: store_matches_def md_a_fields [OF rearranges_orders(1)]
        md_b_fields [OF rearranges_orders(1)] md_a_fields [OF rearranges_orders(2)]
        md_b_fields [OF rearranges_orders(2)] ins rv db2_def old_match_def other_match_def)
qed

text \<open>
  C9, amended: two runs in a row in one process, that is with the same set order, and with
  the same encoder, weights, threshold, user and \<open>top_k\<close>: the second run returns the list
  the first returned and leaves the database the first left; and, for a user that exists,
  the rows of the user in that database are exactly the rows made from the returned list.
  The rows compared are those of the record \<open>Match\<close>; the key and the timestamp the
  database assigns are outside the model.
\<close>

theorem match_user_to_jobs_idempotent:
  "match_user_to_jobs enc listing weights thresholds
       (snd (match_user_to_jobs enc listing weights thresholds db user_id top_k)) user_id top_k
     = match_user_to_jobs enc listing weights thresholds db user_id top_k
   \<and> (user_id \<in> uid ` set (user_profiles db) \<longrightarrow>
        filter (\<lambda>m. m_user_id m = user_id)
          (matches (snd (match_user_to_jobs enc listing weights thresholds db user_id top_k)))
        = map (to_Match user_id)
            (fst (match_user_to_jobs enc listing weights thresholds db user_id top_k)))"
proof -
  have a: "match_user_to_jobs enc listing weights thresholds
       (snd (match_user_to_jobs enc listing weights thresholds db user_id top_k)) user_id top_k
     = match_user_to_jobs enc listing weights thresholds db user_id top_k"
    by (simp add: match_user_to_jobs_def Let_def store_matches_twice split: option.splits)
  have b: "user_id \<in> uid ` set (user_profiles db) \<Longrightarrow>
        filter (\<lambda>m. m_user_id m = user_id)
          (matches (snd (match_user_to_jobs enc listing weights thresholds db user_id top_k)))
        = map (to_Match user_id)
            (fst (match_user_to_jobs enc listing weights thresholds db user_id top_k))"
    using match_user_to_jobs_stores [of user_id db enc listing weights thresholds top_k]
    by (simp add: store_matches_own_rows)
  from a b show ?thesis by simp
qed

text \<open>
  The amended C9 on the second database, with the encoder that separates the two jobs and
  the reversed set order: both runs return the jobs 7 and 8 in this order, with the matched
  skills sql, python and python, and these are the user's rows after the second run.
\<close>

theorem match_user_to_jobs_idempotent_witness:
  "map job_id (fst (match_user_to_jobs unit_encoder reverse_order Map.empty low_threshold
       (snd (match_user_to_jobs unit_encoder reverse_order Map.empty low_threshold db2 1 50)) 1 50))
     = [7, 8]
   \<and> map overall_score (fst (match_user_to_jobs unit_encoder reverse_order Map.empty low_threshold
       (snd (match_user_to_jobs unit_encoder reverse_order Map.empty low_threshold db2 1 50)) 1 50))
     = [173 / 200, 31 / 50]
   \<and> map m_matched_skills (filter (\<lambda>m. m_user_id m = 1)
       (matches (snd (match_user_to_jobs unit_encoder reverse_order Map.empty low_threshold
         (snd (match_user_to_jobs unit_encoder reverse_order Map.empty low_threshold db2 1 50)) 1 50))))
     = [[''sql'', ''python''], [''python'']]"
proof -
  have user: "1 \<in> uid ` set (user_profiles db2)"
    by (simp add: db2_def user2_def user0_def)
  have run: "fst (match_user_to_jobs unit_encoder reverse_order Map.empty low_threshold db2 1 50)
      = [md_a reverse_order, md_b reverse_order]"
    by (simp add: run_db2 [OF rearranges_orders(2)])
  have rv: "reverse_order [''python'', ''sql''] = [''sql'', ''python'']"
    by (simp add: reverse_order_def)
  show ?thesis
    using user match_user_to_jobs_idempotent
      [of unit_encoder reverse_order Map.empty low_threshold db2 1 50]
    by (simp add: run md_a_fields [OF rearranges_orders(2)] md_b_fields [OF rearranges_orders(2)] rv)
qed

subsection \<open>A failing encoder\<close>

text \<open>
  C8, as stated, fails: with an encoder that raises on every text, the run for user 1 on
  \<open>db1\<close> does not abort. It returns a match for job 7 and replaces the stored row (job 99)
  of the user by a row for job 7.
\<close>

theorem encoder_failure_counterexample:
  "failing_encoder [user_text user0] = None
   \<and> map m_job_id (matches db1) = [99]
   \<and> map job_id (fst (match_user_to_jobs failing_encoder insertion_order Map.empty low_threshold db1 1 50)) = [7]
   \<and> map m_job_id (matches (snd (match_user_to_jobs failing_encoder insertion_order Map.empty low_threshold db1 1 50))) = [7]"
proof -
  have "map m_job_id (matches db1) = [99]"
    by (simp add: db1_def old_match_def)
  then show ?thesis
    by (simp add: run_db1 stored_db1 md0_fields failing_encoder_def)
qed

lemma semantic_score_encoder_fails:
  "enc [user_text user] = None \<Longrightarrow> calculate_semantic_score enc user job = 0.5"
  by (simp add: calculate_semantic_score_def)

lemma semantic_score_of_match_score:
  "semantic_score (calculate_match_score enc listing weights user job)
     = calculate_semantic_score enc user job"
  by (simp add: calculate_match_score_def Let_def split: prod.splits)

lemma set_slice_to: "set (slice_to k xs) \<subseteq> set xs"
  by (auto simp: slice_to_def dest: in_set_takeD)

text \<open>
  C8, amended: when the encoder raises on the profile's text, the failure is caught inside
  \<^verbatim>\<open>_calculate_semantic_score\<close>: the semantic score of every job is the default 0.5, the run
  completes, every returned match has semantic score 0.5, and the user's stored matches are
  replaced by the returned list.
\<close>

theorem encoder_failure_is_caught:
  assumes user: "find (\<lambda>u. uid u = user_id) (user_profiles db) = Some user"
    and fails: "enc [user_text user] = None"
  shows "calculate_semantic_score enc user job = 0.5
     \<and> list_all (\<lambda>md. semantic_score md = 0.5)
          (fst (match_user_to_jobs enc listing weights thresholds db user_id top_k))
     \<and> snd (match_user_to_jobs enc listing weights thresholds db user_id top_k)
         = store_matches user_id
             (fst (match_user_to_jobs enc listing weights thresholds db user_id top_k)) db"
proof -
  have a: "calculate_semantic_score enc user job = 0.5"
    using fails by (rule semantic_score_encoder_fails)
  have b: "list_all (\<lambda>md. semantic_score md = 0.5)
          (fst (match_user_to_jobs enc listing weights thresholds db user_id top_k))"
    using user fails set_slice_to
    by (fastforce simp: match_user_to_jobs_def Let_def list_all_iff semantic_score_of_match_score
        semantic_score_encoder_fails)
  have c: "snd (match_user_to_jobs enc listing weights thresholds db user_id top_k)
         = store_matches user_id
             (fst (match_user_to_jobs enc listing weights thresholds db user_id top_k)) db"
    using user by (simp add: match_user_to_jobs_def Let_def)
  from a b c show ?thesis by simp
qed

text \<open>The amended C8 at \<open>db1\<close> and the encoder that always raises.\<close>

theorem encoder_failure_is_caught_witness:
  "calculate_semantic_score failing_encoder user0 job0 = 1 / 2
   \<and> map semantic_score (fst (match_user_to_jobs failing_encoder insertion_order Map.empty low_threshold db1 1 50)) = [1 / 2]
   \<and> matches (snd (match_user_to_jobs failing_encoder insertion_order Map.empty low_threshold db1 1 50))
       = [to_Match 1 md0]"
proof -
  have user: "find (\<lambda>u. uid u = 1) (user_profiles db1) = Some user0"
    by (simp add: db1_def user0_def)
  have fails: "failing_encoder [user_text user0] = None"
    by (simp add: failing_encoder_def)
  show ?thesis
    using user fails
      encoder_failure_is_caught
        [of 1 db1 user0 failing_encoder job0 insertion_order Map.empty low_threshold 50]
    by (simp add: run_db1 stored_db1 md0_fields)
qed

section \<open>The sub-scores\<close>

subsection \<open>Skill match\<close>

lemma lower_py: "lower ''python'' = ''python''" "lower ''react'' = ''react''" "lower ''sql'' = ''sql''"
  by (simp_all add: lower_def lower_char_def)

lemma sets_py:
  "user_skill_set user_py = [''python'', ''react'']" "job_skill_set job_py = [''python'', ''sql'']"
  by (simp_all add: user_skill_set_def job_skill_set_def or_else_def
      user_py_def job_py_def user0_def job0_def lower_py)

lemma rearranges_set [simp]: "rearranges listing \<Longrightarrow> set (listing xs) = set xs"
  by (simp add: rearranges_def)

lemma rearranges_length [simp]: "rearranges listing \<Longrightarrow> length (listing xs) = length xs"
  by (simp add: rearranges_def)

lemma rearranges_single:
  assumes "rearranges listing"
  shows "listing [x] = [x]"
proof -
  have "length (listing [x]) = 1" "set (listing [x]) = {x}"
    using assms by simp_all
  then show ?thesis by (cases "listing [x]") auto
qed

lemma skill_example:
  assumes "rearranges listing"
  shows "calculate_skill_match listing user_py job_py = (1 / 2, [''python''], [''sql''])"
  by (simp add: calculate_skill_match_def sets_py rearranges_single [OF assms] Let_def)

lemma set_user_skill_set: "set (user_skill_set user) = lower ` set (or_else (skills user) [])"
  by (simp add: user_skill_set_def)

lemma distinct_user_skill_set [simp]: "distinct (user_skill_set user)"
  by (simp add: user_skill_set_def)

lemma distinct_job_skill_set [simp]: "distinct (job_skill_set job)"
  by (simp add: job_skill_set_def)

lemma length_matched:
  assumes "distinct us"
  shows "length (filter (\<lambda>s. s \<in> set js) us) = card (set us \<inter> set js)"
proof -
  have "set (filter (\<lambda>s. s \<in> set js) us) = set us \<inter> set js" by auto
  moreover have "distinct (filter (\<lambda>s. s \<in> set js) us)" using assms by simp
  ultimately show ?thesis by (metis distinct_card)
qed

text \<open>
  C4: the job's skill set is the lower-cased required and preferred skills together with
  the known skills found in the lower-cased description; the profile's skill set is its
  lower-cased skills. In whatever order the process lists a set: when the job's set is not
  empty, the score is the number of common skills divided by the size of the job's set, the
  matched skills are the common ones and the missing skills are the job's skills the
  profile lacks; when it is empty the result is 0.5 with no matched and no missing skill.
  In the scenario (profile python and react, job requiring python and sql) the result is
  0.5, [python], [sql].
\<close>

theorem skill_match_ratio:
  assumes "rearranges listing"
  shows "(job_skill_set job \<noteq> [] \<longrightarrow>
      fst (calculate_skill_match listing user job)
        = real (card (set (user_skill_set user) \<inter> set (job_skill_set job)))
            / real (card (set (job_skill_set job)))
      \<and> set (fst (snd (calculate_skill_match listing user job)))
          = set (user_skill_set user) \<inter> set (job_skill_set job)
      \<and> set (snd (snd (calculate_skill_match listing user job)))
          = set (job_skill_set job) - set (user_skill_set user))
   \<and> (job_skill_set job = [] \<longrightarrow> calculate_skill_match listing user job = (0.5, [], []))
   \<and> calculate_skill_match listing user_py job_py = (0.5, [''python''], [''sql''])"
proof -
  have a: "job_skill_set job \<noteq> [] \<Longrightarrow>
      fst (calculate_skill_match listing user job)
        = real (card (set (user_skill_set user) \<inter> set (job_skill_set job)))
            / real (card (set (job_skill_set job)))"
    using assms by (simp add: calculate_skill_match_def Let_def length_matched distinct_card)
  have b: "job_skill_set job \<noteq> [] \<Longrightarrow>
      set (fst (snd (calculate_skill_match listing user job)))
          = set (user_skill_set user) \<inter> set (job_skill_set job)"
    using assms by (auto simp: calculate_skill_match_def Let_def)
  have c: "job_skill_set job \<noteq> [] \<Longrightarrow>
      set (snd (snd (calculate_skill_match listing user job)))
          = set (job_skill_set job) - set (user_skill_set user)"
    using assms by (auto simp: calculate_skill_match_def Let_def)
  have d: "job_skill_set job = [] \<Longrightarrow> calculate_skill_match listing user job = (0.5, [], [])"
    by (simp add: calculate_skill_match_def Let_def)
  from a b c d skill_example [OF assms] show ?thesis by simp
qed

text \<open>
  C4 with the reversed set order: at the scenario, at a job that names no skill, and at the
  engineer and the data engineer's job of the second database, where both skills match
  and are listed as sql, python.
\<close>

theorem skill_match_ratio_witness:
  "rearranges reverse_order
   \<and> job_skill_set job_py \<noteq> [] \<and> job_skill_set job0 = []
   \<and> calculate_skill_match reverse_order user_py job_py = (1 / 2, [''python''], [''sql''])
   \<and> calculate_skill_match reverse_order user_py job0 = (1 / 2, [], [])
   \<and> calculate_skill_match reverse_order user2 job_a = (1, [''sql'', ''python''], [])
   \<and> set (user_skill_set user2) \<inter> set (job_skill_set job_a) = {''python'', ''sql''}"
proof -
  have r: "rearranges reverse_order"
    by (simp add: rearranges_def reverse_order_def)
  have e: "job_skill_set job0 = []"
    by (simp add: job_skill_set_def or_else_def job0_def)
  have s: "calculate_skill_match reverse_order user2 job_a = (1, [''sql'', ''python''], [])"
    by (simp add: skill_db2 reverse_order_def)
  show ?thesis
    using r e s skill_match_ratio [OF r, of job_py user_py] skill_match_ratio [OF r, of job0 user_py]
      skill_match_ratio [OF r, of job_a user2]
    by (simp add: sets_py sets_db2)
qed

subsection \<open>Salary match\<close>

lemma salary_match_unfold:
  "calculate_salary_match user job =
     (if \<not> salary_present user job then 0.7
      else if offered_max job \<ge> desired_min user \<and> offered_min job \<le> desired_max user then
        (if desired_max user - desired_min user > 0
         then min 1 (overlap_width user job / (desired_max user - desired_min user)) else 1)
      else if offered_max job < desired_min user
        then max 0.2 (1 - (desired_min user - offered_max job) / desired_min user)
      else 1)"
  by (simp add: calculate_salary_match_def salary_present_def desired_min_def desired_max_def
      offered_min_def offered_max_def overlap_width_def Let_def)

lemma ranges_overlap_iff:
  "ranges_overlap user job \<longleftrightarrow>
     desired_min user \<le> desired_max user \<and> offered_min job \<le> offered_max job
     \<and> offered_max job \<ge> desired_min user \<and> offered_min job \<le> desired_max user"
  unfolding ranges_overlap_def by (auto simp: Int_atLeastAtMost)

lemma salary_values:
  "salary_present user_sal job_sal" "salary_present user_sal job_rich" "salary_present user_sal job_poor"
  "desired_min user_sal = 100000" "desired_max user_sal = 130000"
  "offered_min job_sal = 120000" "offered_max job_sal = 150000"
  "offered_min job_rich = 200000" "offered_max job_rich = 250000"
  "offered_min job_poor = 50000" "offered_max job_poor = 80000"
  "\<not> salary_present user0 job_sal"
  by (simp_all add: salary_present_def desired_min_def desired_max_def offered_min_def
      offered_max_def truthy_int_def user_sal_def job_sal_def job_rich_def job_poor_def
      user0_def job0_def)

lemma salary_example: "calculate_salary_match user_sal job_sal = 1 / 3"
  by (simp add: salary_match_unfold salary_values overlap_width_def)

text \<open>
  Below the candidate's floor the score stays between the floor 0.2 and 1 (for a positive
  desired minimum).
\<close>

lemma salary_decay_bounds:
  assumes "salary_present user job" "0 < desired_min user" "offered_max job < desired_min user"
  shows "0.2 \<le> calculate_salary_match user job \<and> calculate_salary_match user job \<le> 1"
  using assms by (simp add: salary_match_unfold)

text \<open>
  C5: without salary data on either side the score is 0.7. With it: when the candidate's
  and the job's range overlap and the candidate's range has a positive width, the score is
  the width of the overlap divided by the width of the candidate's range, capped at 1 (for
  a candidate's range of a single point the quotient is undefined and the score is 1);
  when the job's floor is above the candidate's ceiling the score is 1; when the job's
  ceiling is below the candidate's floor the score is 1 minus the gap relative to the
  candidate's floor, never below 0.2. The scenario gives 10000 / 30000 = 1/3.
\<close>

theorem salary_match_cases:
  "(\<not> salary_present user job \<longrightarrow> calculate_salary_match user job = 0.7)
   \<and> (salary_present user job \<and> ranges_overlap user job \<and> desired_min user < desired_max user \<longrightarrow>
        calculate_salary_match user job
          = min 1 (overlap_width user job / (desired_max user - desired_min user)))
   \<and> (salary_present user job \<and> ranges_overlap user job \<and> desired_min user = desired_max user \<longrightarrow>
        calculate_salary_match user job = 1)
   \<and> (salary_present user job \<and> desired_min user \<le> desired_max user
        \<and> offered_min job \<le> offered_max job \<and> desired_max user < offered_min job \<longrightarrow>
        calculate_salary_match user job = 1)
   \<and> (salary_present user job \<and> offered_max job < desired_min user \<longrightarrow>
        calculate_salary_match user job
          = max 0.2 (1 - (desired_min user - offered_max job) / desired_min user))
   \<and> calculate_salary_match user_sal job_sal = 1 / 3"
proof -
  have a: "\<not> salary_present user job \<Longrightarrow> calculate_salary_match user job = 0.7"
    by (simp add: salary_match_unfold)
  have b: "salary_present user job \<Longrightarrow> ranges_overlap user job \<Longrightarrow>
      desired_min user < desired_max user \<Longrightarrow>
      calculate_salary_match user job
          = min 1 (overlap_width user job / (desired_max user - desired_min user))"
    by (simp add: salary_match_unfold ranges_overlap_iff)
  have c: "salary_present user job \<Longrightarrow> ranges_overlap user job \<Longrightarrow>
      desired_min user = desired_max user \<Longrightarrow> calculate_salary_match user job = 1"
    by (simp add: salary_match_unfold ranges_overlap_iff)
  have d: "salary_present user job \<Longrightarrow> desired_min user \<le> desired_max user \<Longrightarrow>
      offered_min job \<le> offered_max job \<Longrightarrow> desired_max user < offered_min job \<Longrightarrow>
      calculate_salary_match user job = 1"
    by (simp add: salary_match_unfold)
  have e: "salary_present user job \<Longrightarrow> offered_max job < desired_min user \<Longrightarrow>
      calculate_salary_match user job
          = max 0.2 (1 - (desired_min user - offered_max job) / desired_min user)"
    by (simp add: salary_match_unfold)
  from a b c d e salary_example show ?thesis by blast
qed

text \<open>
  C5 at four inputs: no desired salary (0.7); the scenario (overlap 10000 of 30000, 1/3);
  a job whose floor is above the candidate's ceiling (1); a job whose ceiling 80000 is below
  the candidate's floor 100000 (0.8).
\<close>

theorem salary_match_cases_witness:
  "calculate_salary_match user0 job_sal = 7 / 10
   \<and> overlap_width user_sal job_sal = 10000
   \<and> desired_max user_sal - desired_min user_sal = 30000
   \<and> calculate_salary_match user_sal job_sal = 1 / 3
   \<and> calculate_salary_match user_sal job_rich = 1
   \<and> calculate_salary_match user_sal job_poor = 4 / 5"
  using salary_match_cases [of user0 job_sal] salary_match_cases [of user_sal job_sal]
    salary_match_cases [of user_sal job_rich] salary_match_cases [of user_sal job_poor]
  by (simp add: salary_values overlap_width_def ranges_overlap_iff)

subsection \<open>Experience match\<close>

text \<open>
  For a number of years other than 0 and a level of the table, the score is as C6 says: 1
  inside the level's range, below it 1 minus 0.2 per missing year but at least 0.3, above
  it 1 minus 0.1 per extra year but at least 0.6.
\<close>

lemma experience_match_nonzero_years:
  assumes "experience_years user = Some y" "y \<noteq> 0"
    and "experience_level job = Some level" "level_ranges level = Some (lo, hi)"
  shows "calculate_experience_match user job =
     (if lo \<le> y \<and> y \<le> hi then 1
      else if y < lo then max 0.3 (1 - real_of_int (lo - y) * 0.2)
      else max 0.6 (1 - real_of_int (y - hi) * 0.1))"
proof -
  have "level \<noteq> []" using assms(4) by (auto simp: level_ranges_def)
  then show ?thesis using assms by (simp add: calculate_experience_match_def Let_def)
qed

text \<open>
  C6 at 0 years of experience and an entry-level job: the years are known and lie inside
  the range (0, 2) of the level, and the score is the default 0.7, not 1. The test
  \<^verbatim>\<open>not user.experience_years\<close> takes the number 0 for a missing value.
\<close>

theorem experience_match_zero_years:
  "experience_years user_new = Some 0 \<and> experience_level job_entry = Some ''entry''
   \<and> level_ranges ''entry'' = Some (0, 2)
   \<and> calculate_experience_match user_new job_entry = 7 / 10"
  by (simp add: calculate_experience_match_def user_new_def job_entry_def user0_def job0_def
      level_ranges_def)

section \<open>The vector store\<close>

subsection \<open>Loading\<close>

text \<open>
  C7, as stated, fails: a damaged index file makes \<^verbatim>\<open>__init__\<close> start a new, empty store
  without any error, and an index of two vectors beside a list of one id is loaded as it
  is.
\<close>

theorem FaissStore_init_counterexample:
  "FaissStore_init 2 fs_damaged = Inr (fresh_store 2)
   \<and> FaissStore_init 2 fs_mismatch = Inr \<lparr>store_d = 2, index = ix2, ids = [''job:1'']\<rparr>
   \<and> ntotal ix2 = 2 \<and> length [''job:1''] = 1"
  by (simp add: FaissStore_init_def fs_damaged_def fs_mismatch_def read_index_def pickle_load_def
      ntotal_def ix2_def)

text \<open>
  C7, amended: no load signals \<open>IndexCorruptionError\<close>. When the directory can be made and
  one of the two files is damaged, the store starts new and empty, silently; when both files
  are read, the index and the id list are taken as read, whether or not they fit each other.
\<close>

theorem FaissStore_init_no_corruption_error:
  "FaissStore_init n fs \<noteq> Inl IndexCorruptionError
   \<and> (dirs_ok fs \<and> (index_file fs = Some Damaged \<or> id_file fs = Some Damaged) \<longrightarrow>
        FaissStore_init n fs = Inr (fresh_store n))
   \<and> (dirs_ok fs \<and> index_file fs = Some (Content ix) \<and> id_file fs = Some (Content l) \<longrightarrow>
        FaissStore_init n fs = Inr \<lparr>store_d = n, index = ix, ids = l\<rparr>)"
  by (auto simp: FaissStore_init_def read_index_def pickle_load_def
      split: option.splits stored.splits sum.splits)

text \<open>The amended C7 at the damaged index file and at the files that do not fit.\<close>

theorem FaissStore_init_no_corruption_error_witness:
  "dirs_ok fs_damaged \<and> index_file fs_damaged = Some Damaged
   \<and> FaissStore_init 2 fs_damaged = Inr (fresh_store 2)
   \<and> dirs_ok fs_mismatch \<and> index_file fs_mismatch = Some (Content ix2)
   \<and> id_file fs_mismatch = Some (Content [''job:1''])
   \<and> FaissStore_init 2 fs_mismatch = Inr \<lparr>store_d = 2, index = ix2, ids = [''job:1'']\<rparr>"
  using FaissStore_init_no_corruption_error [of 2 fs_damaged]
    FaissStore_init_no_corruption_error [of 2 fs_mismatch ix2 "[''job:1'']"]
  by (simp add: fs_damaged_def fs_mismatch_def)

subsection \<open>Searching\<close>

lemma length_index_search_row [simp]: "length (index_search_row ix q k) = k"
  by (simp add: index_search_row_def Let_def)

lemma sorted_best:
  "sorted_wrt (\<lambda>a b. fst a \<ge> fst b) (take k (sort_key (\<lambda>p. - fst p) (xs :: (real \<times> int) list)))"
proof -
  have "sorted (map (\<lambda>p. - fst p) (sort_key (\<lambda>p. - fst p) xs))"
    by (rule sorted_sort_key)
  then have "sorted_wrt (\<lambda>a b. fst a \<ge> fst b) (sort_key (\<lambda>p. - fst p) xs)"
    by (simp add: sorted_map)
  then show ?thesis by (rule sorted_wrt_take)
qed

lemma filter_index_search_row:
  "filter P (index_search_row ix q k)
     = filter P (take k (sort_key (\<lambda>p. - fst p)
          (zip (map (dot q) (xb ix)) (map int [0..<length (xb ix)]))))
       @ (if P (- flt_max, - 1) then replicate (k - length (take k (sort_key (\<lambda>p. - fst p)
          (zip (map (dot q) (xb ix)) (map int [0..<length (xb ix)]))))) (- flt_max, - 1) else [])"
  by (simp add: index_search_row_def Let_def)

lemma sorted_kept_row:
  "sorted_wrt (\<lambda>a b. fst a \<ge> fst b)
     (filter (\<lambda>p. \<not> (snd p < 0 \<or> snd p \<ge> m)) (index_search_row ix q k))"
  by (simp add: filter_index_search_row sorted_wrt_filter sorted_best)

lemma search_rows:
  assumes "search s q k = Inr rows" "row \<in> set rows"
  shows "row = [] \<or> (\<exists>qv. row = map (\<lambda>p. \<lparr>hit_id = ids s ! nat (snd p), score = fst p\<rparr>)
      (filter (\<lambda>p. \<not> (snd p < 0 \<or> snd p \<ge> int (length (ids s)))) (index_search_row (index s) qv k)))"
  using assms
  by (auto simp: search_def index_search_def split: if_splits sum.splits)

lemma search_row_props:
  assumes "search s q k = Inr rows" "row \<in> set rows"
  shows "length row \<le> k \<and> sorted_wrt (\<ge>) (map score row) \<and> set (map hit_id row) \<subseteq> set (ids s)"
proof -
  from search_rows [OF assms] show ?thesis
  proof
    assume "row = []"
    then show ?thesis by simp
  next
    assume "\<exists>qv. row = map (\<lambda>p. \<lparr>hit_id = ids s ! nat (snd p), score = fst p\<rparr>)
      (filter (\<lambda>p. \<not> (snd p < 0 \<or> snd p \<ge> int (length (ids s)))) (index_search_row (index s) qv k))"
    then obtain qv where row: "row = map (\<lambda>p. \<lparr>hit_id = ids s ! nat (snd p), score = fst p\<rparr>)
      (filter (\<lambda>p. \<not> (snd p < 0 \<or> snd p \<ge> int (length (ids s)))) (index_search_row (index s) qv k))"
      by blast
    have l: "length row \<le> k"
      unfolding row using length_filter_le [of _ "index_search_row (index s) qv k"] by simp
    have "map score row = map fst
      (filter (\<lambda>p. \<not> (snd p < 0 \<or> snd p \<ge> int (length (ids s)))) (index_search_row (index s) qv k))"
      unfolding row by (simp add: comp_def)
    then have so: "sorted_wrt (\<ge>) (map score row)"
      using sorted_kept_row [of "int (length (ids s))" "index s" qv k]
      by (simp add: sorted_wrt_map)
    have i: "set (map hit_id row) \<subseteq> set (ids s)"
      unfolding row by (auto simp: comp_def)
    from l so i show ?thesis by simp
  qed
qed

lemma ids_add: "add s fs v i = Inr (s', fs') \<Longrightarrow> ids s' = ids s @ i"
  by (auto simp: add_def Let_def split: sum.splits)

lemma ids_run_adds:
  "set (ids (fst (run_adds st calls))) \<subseteq> set (ids (fst st)) \<union> inserted_ids calls"
proof (induction calls arbitrary: st)
  case Nil
  then show ?case by simp
next
  case (Cons c calls)
  show ?case
  proof (cases "add (fst st) (snd st) (fst c) (snd c)")
    case (Inl e)
    then show ?thesis using Cons.IH [of st] by (auto simp: inserted_ids_def)
  next
    case (Inr st')
    then have "ids (fst st') = ids (fst st) @ snd c"
      using ids_add [of "fst st" "snd st" "fst c" "snd c" "fst st'" "snd st'"] by simp
    then show ?thesis using Inr Cons.IH [of st'] by (auto simp: inserted_ids_def)
  qed
qed

text \<open>A query of the index's dimension with a positive \<open>k\<close> is answered, not refused.\<close>

lemma search_returns:
  assumes "list_all (\<lambda>r. length r = dim (index s)) (as_rows q)" "0 < k"
  shows "\<exists>rows. search s q k = Inr rows"
  using assms by (simp add: search_def index_search_def)

lemma dim_add: "add s fs v i = Inr (s', fs') \<Longrightarrow> dim (index s') = dim (index s)"
  by (auto simp: add_def index_add_def Let_def split: sum.splits if_splits)

lemma dim_run_adds: "dim (index (fst (run_adds st calls))) = dim (index (fst st))"
proof (induction calls arbitrary: st)
  case Nil
  then show ?case by simp
next
  case (Cons c calls)
  show ?case
  proof (cases "add (fst st) (snd st) (fst c) (snd c)")
    case (Inl e)
    then show ?thesis using Cons.IH [of st] by simp
  next
    case (Inr st')
    then have "dim (index (fst st')) = dim (index (fst st))"
      using dim_add [of "fst st" "snd st" "fst c" "snd c" "fst st'" "snd st'"] by simp
    then show ?thesis using Inr Cons.IH [of st'] by simp
  qed
qed

text \<open>
  C3: on the store reached from a new one by any sequence of \<^verbatim>\<open>add\<close> calls, every row that
  \<^verbatim>\<open>search\<close> returns for a query and a \<open>k\<close> has at most \<open>k\<close> entries, its scores never
  increase along the row, and each of its ids is one of the inserted ids; a query of the
  store's dimension with a positive \<open>k\<close> is answered. On a store whose index is empty,
  \<^verbatim>\<open>search\<close> returns the single empty row \<^verbatim>\<open>[[]]\<close>, whatever the query and \<open>k\<close>, and does
  not raise.
\<close>

theorem search_results:
  "(search (fst (run_adds (fresh_store n, fs) calls)) q k = Inr rows \<and> row \<in> set rows \<longrightarrow>
      length row \<le> k \<and> sorted_wrt (\<ge>) (map score row)
      \<and> set (map hit_id row) \<subseteq> inserted_ids calls)
   \<and> (list_all (\<lambda>r. length r = n) (as_rows q) \<and> 0 < k \<longrightarrow>
        (\<exists>rs. search (fst (run_adds (fresh_store n, fs) calls)) q k = Inr rs))
   \<and> (ntotal (index s) = 0 \<longrightarrow> search s q k = Inr [[]])"
proof -
  have "dim (index (fst (run_adds (fresh_store n, fs) calls))) = n"
    using dim_run_adds [of "(fresh_store n, fs)" calls]
    by (simp add: fresh_store_def new_IndexFlatIP_def)
  then have c: "list_all (\<lambda>r. length r = n) (as_rows q) \<Longrightarrow> 0 < k \<Longrightarrow>
      \<exists>rs. search (fst (run_adds (fresh_store n, fs) calls)) q k = Inr rs"
    using search_returns [of "fst (run_adds (fresh_store n, fs) calls)" q k] by simp
  have "set (ids (fst (run_adds (fresh_store n, fs) calls))) \<subseteq> inserted_ids calls"
    using ids_run_adds [of "(fresh_store n, fs)" calls] by (simp add: fresh_store_def)
  then have a: "search (fst (run_adds (fresh_store n, fs) calls)) q k = Inr rows \<Longrightarrow> row \<in> set rows \<Longrightarrow>
      length row \<le> k \<and> sorted_wrt (\<ge>) (map score row)
      \<and> set (map hit_id row) \<subseteq> inserted_ids calls"
    using search_row_props [of "fst (run_adds (fresh_store n, fs) calls)" q k rows row] by blast
  have b: "ntotal (index s) = 0 \<Longrightarrow> search s q k = Inr [[]]"
    by (simp add: search_def)
  from a b c show ?thesis by blast
qed

lemma store2_value:
  "store2 = \<lparr>store_d = 2, index = \<lparr>dim = 2, xb = [[1, 0], [0, 1]]\<rparr>, ids = [''job:1'', ''job:2'']\<rparr>"
  by (simp add: store2_def calls2_def fresh_store_def new_IndexFlatIP_def add_def index_add_def
      as_rows_def save_def Let_def)

lemma upt2: "[0..<2] = [0, 1]"
  by (simp add: upt_rec)

lemma search_store2:
  "search store2 (Vec [1, 0]) 3
     = Inr [[\<lparr>hit_id = ''job:1'', score = 1\<rparr>, \<lparr>hit_id = ''job:2'', score = 0\<rparr>]]"
  by (simp add: store2_value search_def ntotal_def index_search_def index_search_row_def as_rows_def
      dot_def upt2 Let_def)

lemma search_fresh: "search (fresh_store 2) (Vec [1, 0]) 3 = Inr [[]]"
  by (simp add: search_def fresh_store_def new_IndexFlatIP_def ntotal_def)

text \<open>
  C3 on the store with the two unit vectors: the query (1, 0) with \<open>k = 3\<close> returns the
  two inserted ids, best first; on the new store the same query returns the empty row.
\<close>

theorem search_results_witness:
  "search store2 (Vec [1, 0]) 3
     = Inr [[\<lparr>hit_id = ''job:1'', score = 1\<rparr>, \<lparr>hit_id = ''job:2'', score = 0\<rparr>]]
   \<and> inserted_ids calls2 = {''job:1'', ''job:2''}
   \<and> ntotal (index (fresh_store 2)) = 0
   \<and> search (fresh_store 2) (Vec [1, 0]) 3 = Inr [[]]"
  using search_results [of 2 fs_empty calls2 "Vec [1, 0]" 3
      "[[\<lparr>hit_id = ''job:1'', score = 1\<rparr>, \<lparr>hit_id = ''job:2'', score = 0\<rparr>]]"
      "[\<lparr>hit_id = ''job:1'', score = 1\<rparr>, \<lparr>hit_id = ''job:2'', score = 0\<rparr>]"
      "fresh_store 2"]
    search_store2
  by (simp add: inserted_ids_def calls2_def fresh_store_def new_IndexFlatIP_def ntotal_def
      search_fresh [unfolded fresh_store_def new_IndexFlatIP_def])

end
